theory Spec2Isabelle
  imports Main "HOL-Library.Word"
begin

unbundle bit_operations_syntax

section \<open>Data model of the AI Auto News Python SDK\<close>

text \<open>
  Python values that travel through the SDK (query parameters, JSON bodies, parsed
  response bodies) are JSON-shaped: \<open>None\<close>, booleans, integers, strings, lists and
  dictionaries with string keys. A dictionary is kept as the list of its items in
  insertion order; a parsed body has distinct keys. Floating point numbers are left out:
  no branch of the SDK looks at one.
\<close>

datatype json =
    JNull
  | JBool bool
  | JNum int
  | JStr string
  | JArr "json list"
  | JObj "(string \<times> json) list"

type_synonym pydict = "(string \<times> json) list"

datatype ContentType = BLOG | NEWS

fun ContentType_value :: "ContentType \<Rightarrow> string" where
  "ContentType_value BLOG = ''blog''"
| "ContentType_value NEWS = ''news''"

datatype Urgency = LOW | MEDIUM | HIGH | BREAKING

fun Urgency_value :: "Urgency \<Rightarrow> string" where
  "Urgency_value LOW = ''low''"
| "Urgency_value MEDIUM = ''medium''"
| "Urgency_value HIGH = ''high''"
| "Urgency_value BREAKING = ''breaking''"

record SDKConfig =
  api_key :: string
  base_url :: string
  timeout :: int
  retries :: int
  version :: string

text \<open>\<open>SDKConfig(api_key=k)\<close>: the dataclass defaults.\<close>

definition default_config :: "string \<Rightarrow> SDKConfig" where
  "default_config k =
     \<lparr>api_key = k, base_url = ''https://api.ai-auto-news.com'', timeout = 30,
      retries = 3, version = ''v1''\<rparr>"

text \<open>
  The dataclass \<open>Post\<close>. A dataclass does not check the annotated types, so every field
  holds whatever value the server sent; \<open>metadata\<close> defaults to \<open>None\<close>.
\<close>

record Post =
  post_id :: json
  post_title :: json
  post_content :: json
  post_category :: json
  post_slug :: json
  post_published :: json
  post_created_at :: json
  post_metadata :: json

record APIResponse =
  success :: bool
  data :: json
  error :: "pydict option"
  metadata :: "pydict option"

text \<open>
  Exceptions. \<open>RequestException s st\<close> stands for any instance of
  \<open>requests.exceptions.RequestException\<close> or of a subclass (ConnectionError, Timeout,
  TooManyRedirects, the JSONDecodeError of requests 2.27 and later, ...): \<open>s\<close> is
  \<open>str(e)\<close>, and \<open>st\<close> is \<open>e.response.status_code\<close> when \<open>e.response\<close> is not
  \<open>None\<close>. \<open>AIAutoNewsException message code details\<close> is the SDK's own exception; it
  derives from \<open>Exception\<close>, not from \<open>RequestException\<close>. The other constructors are
  the builtin exceptions the modelled code can run into.
\<close>

datatype exc =
    RequestException string "nat option"
  | ValueError
  | AttributeError
  | TypeError
  | UnicodeEncodeError
  | OtherException string
  | AIAutoNewsException json json details
and details =
    JsonDetails json
  | ErrorDetails exc

fun is_RequestException :: "exc \<Rightarrow> bool" where
  "is_RequestException (RequestException s st) = True"
| "is_RequestException _ = False"

section \<open>The HTTP layer as the SDK sees it\<close>

text \<open>
  What \<open>session.request\<close> is called with, and what it answers. Of a response the SDK
  reads \<open>content\<close> (only whether it is empty), \<open>json()\<close>, \<open>ok\<close>, \<open>reason\<close> and
  \<open>headers\<close>. \<open>json_result\<close> is what \<open>response.json()\<close> does on this response: it
  returns the parsed body or raises; on a body that is not JSON it raises
  \<open>requests.exceptions.JSONDecodeError\<close>, a \<open>RequestException\<close>, from requests 2.27
  on, and a plain \<open>ValueError\<close> before.
\<close>

record http_request =
  req_method :: string
  req_url :: string
  req_params :: "pydict option"
  req_json :: "pydict option"
  req_headers :: "(string \<times> string) list"
  req_timeout :: int

record response =
  status_code :: nat
  reason :: string
  content :: string
  json_result :: "exc + json"
  headers :: "(string \<times> string) list"

datatype transport = Responds response | Raises exc

text \<open>The network: the outcome of the attempt with a given index of a given request.\<close>

type_synonym network = "http_request \<Rightarrow> nat \<Rightarrow> transport"

datatype event = Attempt http_request | Sleep nat

text \<open>
  \<open>Response.ok\<close> is false exactly when \<open>raise_for_status\<close> raises, that is for a status
  from 400 to 599.
\<close>

definition ok :: "response \<Rightarrow> bool" where
  "ok r = (\<not> (400 \<le> status_code r \<and> status_code r < 600))"

text \<open>
  \<open>response.headers\<close> is a case-insensitive dictionary: \<open>headers.get(k, d)\<close> compares
  lower-cased names.
\<close>

definition lower_char :: "char \<Rightarrow> char" where
  "lower_char c =
     (if 65 \<le> (of_char c :: nat) \<and> (of_char c :: nat) \<le> 90
      then char_of ((of_char c :: nat) + 32) else c)"

definition lower :: "string \<Rightarrow> string" where
  "lower s = map lower_char s"

definition headers_get :: "(string \<times> string) list \<Rightarrow> string \<Rightarrow> string option" where
  "headers_get hs k = map_of (map (\<lambda>(a, b). (lower a, b)) hs) (lower k)"

text \<open>\<open>x.get(k, d)\<close>: a dictionary method; any other JSON value has no \<open>get\<close>.\<close>

fun py_get :: "json \<Rightarrow> string \<Rightarrow> json \<Rightarrow> exc + json" where
  "py_get (JObj kvs) k d = Inr (case map_of kvs k of Some v \<Rightarrow> v | None \<Rightarrow> d)"
| "py_get _ k d = Inl AttributeError"

text \<open>
  \<open>int(s)\<close> on a string: surrounding whitespace is dropped, one sign is allowed, then
  decimal digits, with single underscores between digits; anything else is a ValueError.
\<close>

definition is_space :: "char \<Rightarrow> bool" where
  "is_space c = ((of_char c :: nat) \<in> {9, 10, 11, 12, 13, 32})"

definition is_digit :: "char \<Rightarrow> bool" where
  "is_digit c = (48 \<le> (of_char c :: nat) \<and> (of_char c :: nat) \<le> 57)"

definition strip :: "string \<Rightarrow> string" where
  "strip s = rev (dropWhile is_space (rev (dropWhile is_space s)))"

fun digits_value :: "nat \<Rightarrow> bool \<Rightarrow> string \<Rightarrow> nat option" where
  "digits_value acc after_digit [] = (if after_digit then Some acc else None)"
| "digits_value acc after_digit (c # cs) =
     (if is_digit c then digits_value (10 * acc + ((of_char c :: nat) - 48)) True cs
      else if c = CHR ''_'' \<and> after_digit \<and> cs \<noteq> [] \<and> is_digit (hd cs)
        then digits_value acc False cs
      else None)"

definition int_of_str :: "string \<Rightarrow> int option" where
  "int_of_str s =
     (case strip s of
        [] \<Rightarrow> None
      | c # cs \<Rightarrow>
          if c = CHR ''-'' then map_option (\<lambda>n. - int n) (digits_value 0 False cs)
          else if c = CHR ''+'' then map_option int (digits_value 0 False cs)
          else map_option int (digits_value 0 False (c # cs)))"

text \<open>\<open>int(response.headers.get("x-ratelimit-remaining", 0))\<close>\<close>

definition remaining_of :: "(string \<times> string) list \<Rightarrow> exc + int" where
  "remaining_of hs =
     (case headers_get hs ''x-ratelimit-remaining'' of
        None \<Rightarrow> Inr 0
      | Some s \<Rightarrow> (case int_of_str s of None \<Rightarrow> Inl ValueError | Some n \<Rightarrow> Inr n))"

definition header_or_empty :: "(string \<times> string) list \<Rightarrow> string \<Rightarrow> string" where
  "header_or_empty hs k = (case headers_get hs k of None \<Rightarrow> [] | Some v \<Rightarrow> v)"

section \<open>The request executor\<close>

definition build_url :: "SDKConfig \<Rightarrow> string \<Rightarrow> string" where
  "build_url cfg path = base_url cfg @ ''/api/'' @ version cfg @ path"

text \<open>
  The headers the constructor puts on the session, and \<open>dict.update\<close> with the per-call
  headers. (The defaults the requests library itself adds to a new session are not
  listed.)
\<close>

definition session_headers :: "SDKConfig \<Rightarrow> (string \<times> string) list" where
  "session_headers cfg =
     [(''Authorization'', ''Bearer '' @ api_key cfg),
      (''Content-Type'', ''application/json''),
      (''User-Agent'', ''ai-auto-news-sdk-python/2.0.0'')]"

fun dict_set :: "('k \<times> 'v) list \<Rightarrow> 'k \<Rightarrow> 'v \<Rightarrow> ('k \<times> 'v) list" where
  "dict_set [] k v = [(k, v)]"
| "dict_set ((a, b) # kvs) k v = (if a = k then (a, v) # kvs else (a, b) # dict_set kvs k v)"

definition dict_update :: "('k \<times> 'v) list \<Rightarrow> ('k \<times> 'v) list \<Rightarrow> ('k \<times> 'v) list" where
  "dict_update d e = foldl (\<lambda>acc (k, v). dict_set acc k v) d e"

text \<open>\<open>data = response.json() if response.content else {}\<close>\<close>

definition response_data :: "response \<Rightarrow> exc + json" where
  "response_data r = (if content r \<noteq> [] then json_result r else Inr (JObj []))"

text \<open>
  The part of the \<open>try\<close> body after \<open>session.request\<close> has returned a response:
  lines 329 to 351. \<open>Inl\<close> is an exception raised there, \<open>Inr\<close> the returned envelope.
\<close>

definition raise_for_error :: "response \<Rightarrow> json \<Rightarrow> exc" where
  "raise_for_error r dat =
     (case py_get dat ''error'' (JObj []) of
        Inl e \<Rightarrow> e
      | Inr err \<Rightarrow>
          (case py_get err ''message'' (JStr (reason r)) of
             Inl e \<Rightarrow> e
           | Inr m \<Rightarrow>
               (case py_get err ''code'' (JStr ''request_failed'') of
                  Inl e \<Rightarrow> e
                | Inr c \<Rightarrow>
                    (case py_get err ''details'' JNull of
                       Inl e \<Rightarrow> e
                     | Inr d \<Rightarrow> AIAutoNewsException m c (JsonDetails d)))))"

definition build_envelope :: "response \<Rightarrow> json \<Rightarrow> exc + APIResponse" where
  "build_envelope r dat =
     (case py_get dat ''data'' dat of
        Inl e \<Rightarrow> Inl e
      | Inr payload \<Rightarrow>
          (case remaining_of (headers r) of
             Inl e \<Rightarrow> Inl e
           | Inr n \<Rightarrow>
               Inr \<lparr>success = True, data = payload, error = None,
                    metadata = Some
                      [(''request_id'', JStr (header_or_empty (headers r) ''x-request-id'')),
                       (''rate_limit'', JObj
                          [(''remaining'', JNum n),
                           (''reset'', JStr (header_or_empty (headers r) ''x-ratelimit-reset''))])]\<rparr>))"

definition handle_response :: "response \<Rightarrow> exc + APIResponse" where
  "handle_response r =
     (case response_data r of
        Inl e \<Rightarrow> Inl e
      | Inr dat \<Rightarrow> if \<not> ok r then Inl (raise_for_error r dat) else build_envelope r dat)"

text \<open>The whole \<open>try\<close> body of one attempt.\<close>

fun attempt_body :: "transport \<Rightarrow> exc + APIResponse" where
  "attempt_body (Raises e) = Inl e"
| "attempt_body (Responds r) = handle_response r"

text \<open>
  \<open>hasattr(e, "response") and e.response is not None\<close> and then
  \<open>400 <= e.response.status_code < 500\<close>.
\<close>

fun has_client_error_response :: "exc \<Rightarrow> bool" where
  "has_client_error_response (RequestException s (Some st)) = (400 \<le> st \<and> st < 500)"
| "has_client_error_response _ = False"

text \<open>
  The \<open>for attempt in range(retries)\<close> loop over the attempt indices still to run.
  It ends in one of three ways: the \<open>try\<close> body returned an envelope; an exception
  that is not a \<open>RequestException\<close> left the loop; or the loop ran out or was left by
  \<open>break\<close>, with \<open>last_error\<close> as it then stands. The second component is the trace of
  attempts and sleeps, in order.
\<close>

datatype loop_exit = Returned APIResponse | Raised exc | Fell_through "exc option"

fun retry_loop ::
  "int \<Rightarrow> network \<Rightarrow> http_request \<Rightarrow> nat list \<Rightarrow> exc option \<Rightarrow> loop_exit \<times> event list" where
  "retry_loop n net req [] last_error = (Fell_through last_error, [])"
| "retry_loop n net req (attempt # rest) last_error =
     (case attempt_body (net req attempt) of
        Inr envelope \<Rightarrow> (Returned envelope, [Attempt req])
      | Inl e \<Rightarrow>
          if \<not> is_RequestException e then (Raised e, [Attempt req])
          else if has_client_error_response e then (Fell_through (Some e), [Attempt req])
          else if int attempt < n - 1 then
            (case retry_loop n net req rest (Some e) of
               (x, tr) \<Rightarrow> (x, Attempt req # Sleep (2 ^ attempt) # tr))
          else
            (case retry_loop n net req rest (Some e) of
               (x, tr) \<Rightarrow> (x, Attempt req # tr)))"

text \<open>
  \<open>str(last_error)\<close> and \<open>details=last_error\<close> of the final \<open>raise\<close>. The loop
  stores only instances of \<open>RequestException\<close> in \<open>last_error\<close>.
\<close>

fun str_of_last_error :: "exc option \<Rightarrow> string" where
  "str_of_last_error None = ''None''"
| "str_of_last_error (Some (RequestException s st)) = s"
| "str_of_last_error (Some e) = []"

fun details_of_last_error :: "exc option \<Rightarrow> details" where
  "details_of_last_error None = JsonDetails JNull"
| "details_of_last_error (Some e) = ErrorDetails e"

text \<open>
  The arguments of \<open>session.request\<close>: the URL, and the session's headers updated with
  the per-call ones when there are any.
\<close>

definition build_request ::
  "SDKConfig \<Rightarrow> string \<Rightarrow> string \<Rightarrow> pydict option \<Rightarrow> pydict option \<Rightarrow>
   (string \<times> string) list option \<Rightarrow> http_request" where
  "build_request cfg method path params body hdrs =
     (let url = build_url cfg path;
          request_headers =
            (case hdrs of
               None \<Rightarrow> session_headers cfg
             | Some h \<Rightarrow> if h \<noteq> [] then dict_update (session_headers cfg) h
                         else session_headers cfg)
      in \<lparr>req_method = method, req_url = url, req_params = params, req_json = body,
          req_headers = request_headers, req_timeout = timeout cfg\<rparr>)"

text \<open>
  \<open>_request\<close>: the result is the returned envelope or the exception that reaches the
  caller, together with the trace of attempts and sleeps.
\<close>

definition request ::
  "SDKConfig \<Rightarrow> network \<Rightarrow> string \<Rightarrow> string \<Rightarrow> pydict option \<Rightarrow> pydict option \<Rightarrow>
   (string \<times> string) list option \<Rightarrow> (exc + APIResponse) \<times> event list" where
  "request cfg net method path params body hdrs =
     (case retry_loop (retries cfg) net (build_request cfg method path params body hdrs)
             [0..<nat (retries cfg)] None of
        (Returned envelope, tr) \<Rightarrow> (Inr envelope, tr)
      | (Raised e, tr) \<Rightarrow> (Inl e, tr)
      | (Fell_through last_error, tr) \<Rightarrow>
          (Inl (AIAutoNewsException (JStr (str_of_last_error last_error))
                  (JStr ''request_failed'') (details_of_last_error last_error)), tr))"

text \<open>The number of attempts and the sleeps of a trace.\<close>

fun attempts :: "event list \<Rightarrow> nat" where
  "attempts [] = 0"
| "attempts (Attempt r # tr) = Suc (attempts tr)"
| "attempts (Sleep s # tr) = attempts tr"

fun sleeps :: "event list \<Rightarrow> nat list" where
  "sleeps [] = []"
| "sleeps (Attempt r # tr) = sleeps tr"
| "sleeps (Sleep s # tr) = s # sleeps tr"

section \<open>Resource modules\<close>

text \<open>
  \<open>Post(**d)\<close>: \<open>d\<close> must be a mapping; its keys must be field names of the dataclass
  and must include the seven fields without a default. Anything else is a TypeError.
\<close>

definition Post_fields :: "string list" where
  "Post_fields =
     [''id'', ''title'', ''content'', ''category'', ''slug'', ''published'', ''created_at'',
      ''metadata'']"

definition Post_required :: "string list" where
  "Post_required =
     [''id'', ''title'', ''content'', ''category'', ''slug'', ''published'', ''created_at'']"

definition field :: "pydict \<Rightarrow> string \<Rightarrow> json" where
  "field kvs k = (case map_of kvs k of Some v \<Rightarrow> v | None \<Rightarrow> JNull)"

fun Post_of :: "json \<Rightarrow> exc + Post" where
  "Post_of (JObj kvs) =
     (if list_all (\<lambda>k. k \<in> set Post_fields) (map fst kvs)
         \<and> list_all (\<lambda>k. k \<in> set (map fst kvs)) Post_required
      then Inr \<lparr>post_id = field kvs ''id'', post_title = field kvs ''title'',
                post_content = field kvs ''content'', post_category = field kvs ''category'',
                post_slug = field kvs ''slug'', post_published = field kvs ''published'',
                post_created_at = field kvs ''created_at'',
                post_metadata = field kvs ''metadata''\<rparr>
      else Inl TypeError)"
| "Post_of _ = Inl TypeError"

text \<open>
  \<open>for post in response.data\<close>: a list yields its elements, a dictionary its keys, a
  string its characters; \<open>None\<close>, booleans and integers are not iterable.
\<close>

fun py_iter :: "json \<Rightarrow> exc + json list" where
  "py_iter (JArr xs) = Inr xs"
| "py_iter (JObj kvs) = Inr (map (\<lambda>kv. JStr (fst kv)) kvs)"
| "py_iter (JStr s) = Inr (map (\<lambda>c. JStr [c]) s)"
| "py_iter _ = Inl TypeError"

fun Posts_of :: "json list \<Rightarrow> exc + Post list" where
  "Posts_of [] = Inr []"
| "Posts_of (x # xs) =
     (case Post_of x of
        Inl e \<Rightarrow> Inl e
      | Inr p \<Rightarrow> (case Posts_of xs of Inl e \<Rightarrow> Inl e | Inr ps \<Rightarrow> Inr (p # ps)))"

text \<open>What a public method hands back to its caller.\<close>

datatype returned = A_Post Post | Post_list "Post list" | Data json | Nothing

text \<open>The four ways the methods use the envelope that \<open>_request\<close> returned.\<close>

fun return_Post :: "(exc + APIResponse) \<times> event list \<Rightarrow> (exc + returned) \<times> event list" where
  "return_Post (Inl e, tr) = (Inl e, tr)"
| "return_Post (Inr resp, tr) =
     (case Post_of (data resp) of Inl e \<Rightarrow> (Inl e, tr) | Inr p \<Rightarrow> (Inr (A_Post p), tr))"

fun return_Posts :: "(exc + APIResponse) \<times> event list \<Rightarrow> (exc + returned) \<times> event list" where
  "return_Posts (Inl e, tr) = (Inl e, tr)"
| "return_Posts (Inr resp, tr) =
     (case py_iter (data resp) of
        Inl e \<Rightarrow> (Inl e, tr)
      | Inr xs \<Rightarrow> (case Posts_of xs of Inl e \<Rightarrow> (Inl e, tr) | Inr ps \<Rightarrow> (Inr (Post_list ps), tr)))"

fun return_data :: "(exc + APIResponse) \<times> event list \<Rightarrow> (exc + returned) \<times> event list" where
  "return_data (Inl e, tr) = (Inl e, tr)"
| "return_data (Inr resp, tr) = (Inr (Data (data resp)), tr)"

fun return_None :: "(exc + APIResponse) \<times> event list \<Rightarrow> (exc + returned) \<times> event list" where
  "return_None (Inl e, tr) = (Inl e, tr)"
| "return_None (Inr resp, tr) = (Inr Nothing, tr)"

subsection \<open>Query parameters and bodies\<close>

text \<open>
  \<open>if x:\<close> on an optional string, integer or list is false for \<open>None\<close> and for the
  empty string, zero and the empty list; \<open>if x is not None:\<close> is false for \<open>None\<close>
  only. A member of the enum \<open>Urgency\<close> is always true.
\<close>

definition set_if_str :: "pydict \<Rightarrow> string \<Rightarrow> string option \<Rightarrow> pydict" where
  "set_if_str d k x =
     (case x of None \<Rightarrow> d | Some s \<Rightarrow> if s \<noteq> [] then dict_set d k (JStr s) else d)"

definition set_if_int :: "pydict \<Rightarrow> string \<Rightarrow> int option \<Rightarrow> pydict" where
  "set_if_int d k x =
     (case x of None \<Rightarrow> d | Some n \<Rightarrow> if n \<noteq> 0 then dict_set d k (JNum n) else d)"

definition set_if_strs :: "pydict \<Rightarrow> string \<Rightarrow> string list option \<Rightarrow> pydict" where
  "set_if_strs d k x =
     (case x of
        None \<Rightarrow> d
      | Some xs \<Rightarrow> if xs \<noteq> [] then dict_set d k (JArr (map JStr xs)) else d)"

definition set_if_urgency :: "pydict \<Rightarrow> string \<Rightarrow> Urgency option \<Rightarrow> pydict" where
  "set_if_urgency d k x =
     (case x of None \<Rightarrow> d | Some u \<Rightarrow> dict_set d k (JStr (Urgency_value u)))"

definition set_if_not_None :: "pydict \<Rightarrow> string \<Rightarrow> bool option \<Rightarrow> pydict" where
  "set_if_not_None d k x = (case x of None \<Rightarrow> d | Some b \<Rightarrow> dict_set d k (JBool b))"

definition Posts_list_params :: "int \<Rightarrow> int \<Rightarrow> string option \<Rightarrow> bool option \<Rightarrow> pydict" where
  "Posts_list_params page limit category published =
     set_if_not_None
       (set_if_str [(''page'', JNum page), (''limit'', JNum limit)] ''category'' category)
       ''published'' published"

definition Posts_search_params :: "string \<Rightarrow> int \<Rightarrow> string option \<Rightarrow> pydict" where
  "Posts_search_params query limit category =
     set_if_str [(''q'', JStr query), (''limit'', JNum limit)] ''category'' category"

definition Generation_create_body ::
  "string \<Rightarrow> ContentType \<Rightarrow> Urgency option \<Rightarrow> int option \<Rightarrow> string option \<Rightarrow>
   string option \<Rightarrow> pydict" where
  "Generation_create_body topic content_type urgency target_length tone audience =
     set_if_str
       (set_if_str
          (set_if_int
             (set_if_urgency
                [(''topic'', JStr topic), (''type'', JStr (ContentType_value content_type))]
                ''urgency'' urgency)
             ''targetLength'' target_length)
          ''tone'' tone)
       ''audience'' audience"

definition Analytics_usage_params ::
  "string option \<Rightarrow> string option \<Rightarrow> string option \<Rightarrow> pydict" where
  "Analytics_usage_params start end' metric =
     set_if_str (set_if_str (set_if_str [] ''start'' start) ''end'' end') ''metric'' metric"

definition APIKeys_create_body ::
  "string \<Rightarrow> string list option \<Rightarrow> string option \<Rightarrow> pydict" where
  "APIKeys_create_body name scopes expires_at =
     set_if_str (set_if_strs [(''name'', JStr name)] ''scopes'' scopes) ''expiresAt'' expires_at"

definition Webhooks_create_body :: "string \<Rightarrow> string list \<Rightarrow> string option \<Rightarrow> pydict" where
  "Webhooks_create_body url events secret =
     set_if_str [(''url'', JStr url), (''events'', JArr (map JStr events))] ''secret'' secret"

subsection \<open>The public methods\<close>

definition Posts_list ::
  "SDKConfig \<Rightarrow> network \<Rightarrow> int \<Rightarrow> int \<Rightarrow> string option \<Rightarrow> bool option \<Rightarrow>
   (exc + returned) \<times> event list" where
  "Posts_list cfg net page limit category published =
     return_Posts
       (request cfg net ''GET'' ''/posts''
          (Some (Posts_list_params page limit category published)) None None)"

definition Posts_get :: "SDKConfig \<Rightarrow> network \<Rightarrow> string \<Rightarrow> (exc + returned) \<times> event list" where
  "Posts_get cfg net id_or_slug =
     return_Post (request cfg net ''GET'' (''/posts/'' @ id_or_slug) None None None)"

definition Posts_create :: "SDKConfig \<Rightarrow> network \<Rightarrow> pydict \<Rightarrow> (exc + returned) \<times> event list" where
  "Posts_create cfg net post_data =
     return_Post (request cfg net ''POST'' ''/posts'' None (Some post_data) None)"

definition Posts_update ::
  "SDKConfig \<Rightarrow> network \<Rightarrow> string \<Rightarrow> pydict \<Rightarrow> (exc + returned) \<times> event list" where
  "Posts_update cfg net pid post_data =
     return_Post (request cfg net ''PUT'' (''/posts/'' @ pid) None (Some post_data) None)"

definition Posts_delete :: "SDKConfig \<Rightarrow> network \<Rightarrow> string \<Rightarrow> (exc + returned) \<times> event list" where
  "Posts_delete cfg net pid =
     return_None (request cfg net ''DELETE'' (''/posts/'' @ pid) None None None)"

definition Posts_search ::
  "SDKConfig \<Rightarrow> network \<Rightarrow> string \<Rightarrow> int \<Rightarrow> string option \<Rightarrow> (exc + returned) \<times> event list" where
  "Posts_search cfg net query limit category =
     return_Posts
       (request cfg net ''GET'' ''/search'' (Some (Posts_search_params query limit category))
          None None)"

definition Generation_create ::
  "SDKConfig \<Rightarrow> network \<Rightarrow> string \<Rightarrow> ContentType \<Rightarrow> Urgency option \<Rightarrow> int option \<Rightarrow>
   string option \<Rightarrow> string option \<Rightarrow> (exc + returned) \<times> event list" where
  "Generation_create cfg net topic content_type urgency target_length tone audience =
     return_Post
       (request cfg net ''POST'' ''/generate'' None
          (Some (Generation_create_body topic content_type urgency target_length tone audience))
          None)"

definition Generation_status ::
  "SDKConfig \<Rightarrow> network \<Rightarrow> string \<Rightarrow> (exc + returned) \<times> event list" where
  "Generation_status cfg net job_id =
     return_data (request cfg net ''GET'' (''/generate/'' @ job_id) None None None)"

definition Analytics_usage ::
  "SDKConfig \<Rightarrow> network \<Rightarrow> string option \<Rightarrow> string option \<Rightarrow> string option \<Rightarrow>
   (exc + returned) \<times> event list" where
  "Analytics_usage cfg net start end' metric =
     return_data
       (request cfg net ''GET'' ''/analytics/usage''
          (Some (Analytics_usage_params start end' metric)) None None)"

definition Analytics_metrics :: "SDKConfig \<Rightarrow> network \<Rightarrow> (exc + returned) \<times> event list" where
  "Analytics_metrics cfg net =
     return_data (request cfg net ''GET'' ''/analytics/metrics'' None None None)"

definition Subscriptions_get :: "SDKConfig \<Rightarrow> network \<Rightarrow> (exc + returned) \<times> event list" where
  "Subscriptions_get cfg net =
     return_data (request cfg net ''GET'' ''/subscriptions/current'' None None None)"

definition Subscriptions_upgrade ::
  "SDKConfig \<Rightarrow> network \<Rightarrow> string \<Rightarrow> (exc + returned) \<times> event list" where
  "Subscriptions_upgrade cfg net tier =
     return_data
       (request cfg net ''POST'' ''/subscriptions/upgrade'' None (Some [(''tier'', JStr tier)])
          None)"

definition Subscriptions_cancel :: "SDKConfig \<Rightarrow> network \<Rightarrow> (exc + returned) \<times> event list" where
  "Subscriptions_cancel cfg net =
     return_None (request cfg net ''POST'' ''/subscriptions/cancel'' None None None)"

definition APIKeys_list :: "SDKConfig \<Rightarrow> network \<Rightarrow> (exc + returned) \<times> event list" where
  "APIKeys_list cfg net = return_data (request cfg net ''GET'' ''/apikeys'' None None None)"

definition APIKeys_create ::
  "SDKConfig \<Rightarrow> network \<Rightarrow> string \<Rightarrow> string list option \<Rightarrow> string option \<Rightarrow>
   (exc + returned) \<times> event list" where
  "APIKeys_create cfg net name scopes expires_at =
     return_data
       (request cfg net ''POST'' ''/apikeys'' None
          (Some (APIKeys_create_body name scopes expires_at)) None)"

definition APIKeys_revoke :: "SDKConfig \<Rightarrow> network \<Rightarrow> string \<Rightarrow> (exc + returned) \<times> event list" where
  "APIKeys_revoke cfg net key_id =
     return_None (request cfg net ''DELETE'' (''/apikeys/'' @ key_id) None None None)"

definition Webhooks_list :: "SDKConfig \<Rightarrow> network \<Rightarrow> (exc + returned) \<times> event list" where
  "Webhooks_list cfg net = return_data (request cfg net ''GET'' ''/webhooks'' None None None)"

definition Webhooks_create ::
  "SDKConfig \<Rightarrow> network \<Rightarrow> string \<Rightarrow> string list \<Rightarrow> string option \<Rightarrow>
   (exc + returned) \<times> event list" where
  "Webhooks_create cfg net url events secret =
     return_data
       (request cfg net ''POST'' ''/webhooks'' None (Some (Webhooks_create_body url events secret))
          None)"

definition Webhooks_delete :: "SDKConfig \<Rightarrow> network \<Rightarrow> string \<Rightarrow> (exc + returned) \<times> event list" where
  "Webhooks_delete cfg net webhook_id =
     return_None (request cfg net ''DELETE'' (''/webhooks/'' @ webhook_id) None None None)"

text \<open>
  A call of a public method with its arguments, the method it runs, and the call of
  \<open>_request\<close> that the method makes (method, path, params, body).
\<close>

datatype call =
    Call_Posts_list int int "string option" "bool option"
  | Call_Posts_get string
  | Call_Posts_create pydict
  | Call_Posts_update string pydict
  | Call_Posts_delete string
  | Call_Posts_search string int "string option"
  | Call_Generation_create string ContentType "Urgency option" "int option" "string option"
      "string option"
  | Call_Generation_status string
  | Call_Analytics_usage "string option" "string option" "string option"
  | Call_Analytics_metrics
  | Call_Subscriptions_get
  | Call_Subscriptions_upgrade string
  | Call_Subscriptions_cancel
  | Call_APIKeys_list
  | Call_APIKeys_create string "string list option" "string option"
  | Call_APIKeys_revoke string
  | Call_Webhooks_list
  | Call_Webhooks_create string "string list" "string option"
  | Call_Webhooks_delete string

fun invoke :: "SDKConfig \<Rightarrow> network \<Rightarrow> call \<Rightarrow> (exc + returned) \<times> event list" where
  "invoke cfg net (Call_Posts_list p l c b) = Posts_list cfg net p l c b"
| "invoke cfg net (Call_Posts_get i) = Posts_get cfg net i"
| "invoke cfg net (Call_Posts_create d) = Posts_create cfg net d"
| "invoke cfg net (Call_Posts_update i d) = Posts_update cfg net i d"
| "invoke cfg net (Call_Posts_delete i) = Posts_delete cfg net i"
| "invoke cfg net (Call_Posts_search q l c) = Posts_search cfg net q l c"
| "invoke cfg net (Call_Generation_create t ct u n tone a) =
     Generation_create cfg net t ct u n tone a"
| "invoke cfg net (Call_Generation_status j) = Generation_status cfg net j"
| "invoke cfg net (Call_Analytics_usage s e m) = Analytics_usage cfg net s e m"
| "invoke cfg net Call_Analytics_metrics = Analytics_metrics cfg net"
| "invoke cfg net Call_Subscriptions_get = Subscriptions_get cfg net"
| "invoke cfg net (Call_Subscriptions_upgrade t) = Subscriptions_upgrade cfg net t"
| "invoke cfg net Call_Subscriptions_cancel = Subscriptions_cancel cfg net"
| "invoke cfg net Call_APIKeys_list = APIKeys_list cfg net"
| "invoke cfg net (Call_APIKeys_create n s e) = APIKeys_create cfg net n s e"
| "invoke cfg net (Call_APIKeys_revoke k) = APIKeys_revoke cfg net k"
| "invoke cfg net Call_Webhooks_list = Webhooks_list cfg net"
| "invoke cfg net (Call_Webhooks_create u es s) = Webhooks_create cfg net u es s"
| "invoke cfg net (Call_Webhooks_delete w) = Webhooks_delete cfg net w"

fun executor_call ::
  "SDKConfig \<Rightarrow> network \<Rightarrow> call \<Rightarrow> (exc + APIResponse) \<times> event list" where
  "executor_call cfg net (Call_Posts_list p l c b) =
     request cfg net ''GET'' ''/posts'' (Some (Posts_list_params p l c b)) None None"
| "executor_call cfg net (Call_Posts_get i) =
     request cfg net ''GET'' (''/posts/'' @ i) None None None"
| "executor_call cfg net (Call_Posts_create d) =
     request cfg net ''POST'' ''/posts'' None (Some d) None"
| "executor_call cfg net (Call_Posts_update i d) =
     request cfg net ''PUT'' (''/posts/'' @ i) None (Some d) None"
| "executor_call cfg net (Call_Posts_delete i) =
     request cfg net ''DELETE'' (''/posts/'' @ i) None None None"
| "executor_call cfg net (Call_Posts_search q l c) =
     request cfg net ''GET'' ''/search'' (Some (Posts_search_params q l c)) None None"
| "executor_call cfg net (Call_Generation_create t ct u n tone a) =
     request cfg net ''POST'' ''/generate'' None
       (Some (Generation_create_body t ct u n tone a)) None"
| "executor_call cfg net (Call_Generation_status j) =
     request cfg net ''GET'' (''/generate/'' @ j) None None None"
| "executor_call cfg net (Call_Analytics_usage s e m) =
     request cfg net ''GET'' ''/analytics/usage'' (Some (Analytics_usage_params s e m)) None None"
| "executor_call cfg net Call_Analytics_metrics =
     request cfg net ''GET'' ''/analytics/metrics'' None None None"
| "executor_call cfg net Call_Subscriptions_get =
     request cfg net ''GET'' ''/subscriptions/current'' None None None"
| "executor_call cfg net (Call_Subscriptions_upgrade t) =
     request cfg net ''POST'' ''/subscriptions/upgrade'' None (Some [(''tier'', JStr t)]) None"
| "executor_call cfg net Call_Subscriptions_cancel =
     request cfg net ''POST'' ''/subscriptions/cancel'' None None None"
| "executor_call cfg net Call_APIKeys_list =
     request cfg net ''GET'' ''/apikeys'' None None None"
| "executor_call cfg net (Call_APIKeys_create n s e) =
     request cfg net ''POST'' ''/apikeys'' None (Some (APIKeys_create_body n s e)) None"
| "executor_call cfg net (Call_APIKeys_revoke k) =
     request cfg net ''DELETE'' (''/apikeys/'' @ k) None None None"
| "executor_call cfg net Call_Webhooks_list =
     request cfg net ''GET'' ''/webhooks'' None None None"
| "executor_call cfg net (Call_Webhooks_create u es s) =
     request cfg net ''POST'' ''/webhooks'' None (Some (Webhooks_create_body u es s)) None"
| "executor_call cfg net (Call_Webhooks_delete w) =
     request cfg net ''DELETE'' (''/webhooks/'' @ w) None None None"

text \<open>The methods that build \<open>Post\<close> objects from the envelope's data.\<close>

fun builds_Post :: "call \<Rightarrow> bool" where
  "builds_Post (Call_Posts_list p l c b) = True"
| "builds_Post (Call_Posts_get i) = True"
| "builds_Post (Call_Posts_create d) = True"
| "builds_Post (Call_Posts_update i d) = True"
| "builds_Post (Call_Posts_search q l c) = True"
| "builds_Post (Call_Generation_create t ct u n tone a) = True"
| "builds_Post _ = False"

section \<open>Webhook signatures\<close>





subsection \<open>SHA-256 and HMAC (FIPS 180-4, RFC 2104), as \<open>hashlib\<close> and \<open>hmac\<close> compute them\<close>






























section \<open>Traces of failed attempts, and example servers\<close>

text \<open>
  The trace of \<open>k\<close> attempts from index \<open>a\<close> on that all end in the \<open>except\<close> clause
  without \<open>break\<close>: a sleep of \<open>2 ^ attempt\<close> follows every attempt but the one with
  index \<open>retries - 1\<close>.
\<close>

fun failed_trace :: "int \<Rightarrow> http_request \<Rightarrow> nat \<Rightarrow> nat \<Rightarrow> event list" where
  "failed_trace n req a 0 = []"
| "failed_trace n req a (Suc k) =
     (if int a < n - 1 then Attempt req # Sleep (2 ^ a) # failed_trace n req (Suc a) k
      else Attempt req # failed_trace n req (Suc a) k)"

text \<open>A server that answers every attempt with 503 and an empty body.\<close>

definition server_unavailable :: network where
  "server_unavailable req i =
     Responds \<lparr>status_code = 503, reason = ''Service Unavailable'', content = [],
               json_result = Inr (JObj []), headers = []\<rparr>"

text \<open>A server that cannot be reached: every attempt ends in a ConnectionError.\<close>

definition unreachable :: network where
  "unreachable req i = Raises (RequestException ''Connection refused'' None)"


text \<open>A server that answers 404 with a JSON error object.\<close>

definition not_found_json :: network where
  "not_found_json req i =
     Responds \<lparr>status_code = 404, reason = ''Not Found'',
               content = ''{\"error\":{\"code\":\"not_found\",\"message\":\"missing\"}}'',
               json_result = Inr (JObj [(''error'',
                  JObj [(''code'', JStr ''not_found''), (''message'', JStr ''missing'')])]),
               headers = []\<rparr>"

text \<open>A server that answers 200 with a body that is not JSON.\<close>

definition ok_malformed :: network where
  "ok_malformed req i =
     Responds \<lparr>status_code = 200, reason = ''OK'', content = ''not json'',
               json_result = Inl (RequestException ''Expecting value: line 1 column 1 (char 0)'' None),
               headers = []\<rparr>"


text \<open>A server that answers 200 with an empty body and no headers.\<close>

definition ok_no_headers :: network where
  "ok_no_headers req i =
     Responds \<lparr>status_code = 200, reason = ''OK'', content = [],
               json_result = Inr (JObj []), headers = []\<rparr>"

text \<open>A server that answers 200 with a post that has only an id and a title.\<close>

definition ok_partial_post :: network where
  "ok_partial_post req i =
     Responds \<lparr>status_code = 200, reason = ''OK'',
               content = ''{\"data\":{\"id\":\"p1\",\"title\":\"T\"}}'',
               json_result = Inr (JObj [(''data'',
                  JObj [(''id'', JStr ''p1''), (''title'', JStr ''T'')])]),
               headers = []\<rparr>"

text \<open>A server that answers 200 with a post that has every field but \<open>metadata\<close>.\<close>

definition ok_full_post :: network where
  "ok_full_post req i =
     Responds \<lparr>status_code = 200, reason = ''OK'',
               content = ''{\"data\":{...}}'',
               json_result = Inr (JObj [(''data'',
                  JObj [(''id'', JStr ''p1''), (''title'', JStr ''T''), (''content'', JStr ''C''),
                        (''category'', JStr ''tech''), (''slug'', JStr ''t''),
                        (''published'', JBool True), (''created_at'', JStr ''2024-01-01'')])]),
               headers = []\<rparr>"

section \<open>Lemmas about the model\<close>

subsection \<open>The first attempt\<close>

lemma retry_loop_first_returns:
  "attempt_body (net req a) = Inr envelope \<Longrightarrow>
   retry_loop n net req (a # rest) lst = (Returned envelope, [Attempt req])"
  by simp

lemma retry_loop_first_raises:
  "attempt_body (net req a) = Inl e \<Longrightarrow> \<not> is_RequestException e \<Longrightarrow>
   retry_loop n net req (a # rest) lst = (Raised e, [Attempt req])"
  by simp

lemma upt_nat_retries: "0 < n \<Longrightarrow> [0..<nat n] = 0 # [1..<nat n]"
  by (simp add: upt_conv_Cons)

lemma upt_3: "[0..<3] = [0, 1, 2]"
  by (simp add: upt_conv_Cons numeral_3_eq_3)

lemma request_first_returns:
  assumes "0 < retries cfg"
    and "attempt_body (net (build_request cfg method path params body hdrs) 0) = Inr envelope"
  shows "request cfg net method path params body hdrs =
           (Inr envelope, [Attempt (build_request cfg method path params body hdrs)])"
  using assms by (simp add: request_def upt_nat_retries)

lemma request_first_raises:
  assumes "0 < retries cfg"
    and "attempt_body (net (build_request cfg method path params body hdrs) 0) = Inl e"
    and "\<not> is_RequestException e"
  shows "request cfg net method path params body hdrs =
           (Inl e, [Attempt (build_request cfg method path params body hdrs)])"
  using assms by (simp add: request_def upt_nat_retries)

subsection \<open>Attempts that all end in the except clause\<close>

lemma retry_loop_all_caught:
  assumes "\<And>i. a \<le> i \<Longrightarrow> i < a + k \<Longrightarrow>
             attempt_body (net req i) = Inl (e i) \<and> is_RequestException (e i)
             \<and> \<not> has_client_error_response (e i)"
  shows "retry_loop n net req [a..<a + k] lst =
           (Fell_through (if k = 0 then lst else Some (e (a + k - 1))), failed_trace n req a k)"
  using assms
proof (induction k arbitrary: a lst)
  case 0
  then show ?case by simp
next
  case (Suc k)
  have step: "attempt_body (net req a) = Inl (e a)" "is_RequestException (e a)"
    "\<not> has_client_error_response (e a)"
    using Suc.prems [of a] by simp_all
  have rest: "retry_loop n net req [Suc a..<Suc a + k] (Some (e a)) =
      (Fell_through (if k = 0 then Some (e a) else Some (e (Suc a + k - 1))),
       failed_trace n req (Suc a) k)"
    by (rule Suc.IH) (use Suc.prems in simp)
  have l: "[a..<a + Suc k] = a # [Suc a..<Suc a + k]"
    by (simp add: upt_conv_Cons)
  show ?case
    unfolding l using step rest by (cases k) simp_all
qed

lemma attempts_failed_trace: "attempts (failed_trace n req a k) = k"
  by (induction k arbitrary: a) simp_all

lemma sleeps_failed_trace:
  "int (a + k) = n \<Longrightarrow> sleeps (failed_trace n req a k) = map (\<lambda>i. 2 ^ i) [a..<a + k - 1]"
proof (induction k arbitrary: a)
  case 0
  then show ?case by simp
next
  case (Suc k)
  show ?case
  proof (cases k)
    case 0
    with Suc.prems show ?thesis by simp
  next
    case (Suc j)
    have "int (Suc a + k) = n" using Suc.prems by simp
    then have ih: "sleeps (failed_trace n req (Suc a) k) = map (\<lambda>i. 2 ^ i) [Suc a..<Suc a + k - 1]"
      by (rule Suc.IH)
    have lt: "int a < n - 1" using Suc.prems Suc by simp
    have l: "[a..<a + Suc k - 1] = a # [Suc a..<Suc a + k - 1]"
      using Suc by (simp add: upt_conv_Cons)
    show ?thesis unfolding l using ih lt by simp
  qed
qed

lemma request_all_caught:
  assumes n: "retries cfg = int N" "0 < N"
    and fail: "\<And>i. i < N \<Longrightarrow>
        attempt_body (net (build_request cfg method path params body hdrs) i) = Inl (e i)
        \<and> is_RequestException (e i) \<and> \<not> has_client_error_response (e i)"
  shows "request cfg net method path params body hdrs =
           (Inl (AIAutoNewsException (JStr (str_of_last_error (Some (e (N - 1)))))
                   (JStr ''request_failed'') (ErrorDetails (e (N - 1)))),
            failed_trace (int N) (build_request cfg method path params body hdrs) 0 N)"
proof -
  have "retry_loop (int N) net (build_request cfg method path params body hdrs) [0..<0 + N] None =
      (Fell_through (if N = 0 then None else Some (e (0 + N - 1))),
       failed_trace (int N) (build_request cfg method path params body hdrs) 0 N)"
    by (rule retry_loop_all_caught) (use fail in simp)
  then show ?thesis using n by (simp add: request_def)
qed

lemma request_all_caught_summary:
  assumes "retries cfg = int N" and "0 < N"
    and "\<And>i. i < N \<Longrightarrow>
        attempt_body (net (build_request cfg method path params body hdrs) i)
          = Inl (RequestException (s i) (st i))
        \<and> \<not> has_client_error_response (RequestException (s i) (st i))"
  shows "fst (request cfg net method path params body hdrs) =
           Inl (AIAutoNewsException (JStr (s (N - 1))) (JStr ''request_failed'')
                  (ErrorDetails (RequestException (s (N - 1)) (st (N - 1)))))
         \<and> attempts (snd (request cfg net method path params body hdrs)) = N
         \<and> sleeps (snd (request cfg net method path params body hdrs)) = map (\<lambda>i. 2 ^ i) [0..<N - 1]"
proof -
  have "request cfg net method path params body hdrs =
           (Inl (AIAutoNewsException (JStr (str_of_last_error (Some (RequestException (s (N - 1)) (st (N - 1))))))
                   (JStr ''request_failed'') (ErrorDetails (RequestException (s (N - 1)) (st (N - 1))))),
            failed_trace (int N) (build_request cfg method path params body hdrs) 0 N)"
    by (rule request_all_caught [where e = "\<lambda>i. RequestException (s i) (st i)"])
       (use assms in simp_all)
  then show ?thesis
    using sleeps_failed_trace [of 0 N "int N"] by (simp add: attempts_failed_trace)
qed

subsection \<open>Returned envelopes\<close>

lemma build_envelope_shape:
  "build_envelope r dat = Inr envelope \<Longrightarrow>
   success envelope \<and> error envelope = None \<and> metadata envelope \<noteq> None"
  by (auto simp: build_envelope_def split: sum.splits)

lemma attempt_body_shape:
  "attempt_body t = Inr envelope \<Longrightarrow>
   success envelope \<and> error envelope = None \<and> metadata envelope \<noteq> None"
  by (cases t) (auto simp: handle_response_def split: sum.splits if_splits dest: build_envelope_shape)

lemma retry_loop_returned_shape:
  "retry_loop n net req xs lst = (Returned envelope, tr) \<Longrightarrow>
   success envelope \<and> error envelope = None \<and> metadata envelope \<noteq> None"
proof (induction xs arbitrary: lst tr)
  case Nil
  then show ?case by simp
next
  case (Cons a xs)
  show ?case
  proof (cases "attempt_body (net req a)")
    case (Inr env)
    with Cons.prems have "envelope = env" by simp
    with Inr have "attempt_body (net req a) = Inr envelope" by simp
    then show ?thesis by (rule attempt_body_shape)
  next
    case (Inl e)
    with Cons.prems obtain tr' where "retry_loop n net req xs (Some e) = (Returned envelope, tr')"
      by (auto split: if_splits prod.splits)
    then show ?thesis by (rule Cons.IH)
  qed
qed

subsection \<open>Resource methods\<close>

lemma Post_of_error: "Post_of j = Inl e \<Longrightarrow> e = TypeError"
  by (cases j) (auto split: if_splits)

lemma py_iter_error: "py_iter j = Inl e \<Longrightarrow> e = TypeError"
  by (cases j) auto

lemma Posts_of_error: "Posts_of xs = Inl e \<Longrightarrow> e = TypeError"
  by (induction xs arbitrary: e) (auto split: sum.splits dest: Post_of_error)

lemma return_Post_cases:
  "return_Post (Inr envelope, tr) = (Inl TypeError, tr) \<or> (\<exists>v. return_Post (Inr envelope, tr) = (Inr v, tr))"
  by (auto split: sum.splits dest: Post_of_error)

lemma return_Posts_cases:
  "return_Posts (Inr envelope, tr) = (Inl TypeError, tr) \<or> (\<exists>v. return_Posts (Inr envelope, tr) = (Inr v, tr))"
  by (auto split: sum.splits dest: py_iter_error Posts_of_error)

lemmas method_defs =
  Posts_list_def Posts_get_def Posts_create_def Posts_update_def Posts_delete_def
  Posts_search_def Generation_create_def Generation_status_def Analytics_usage_def
  Analytics_metrics_def Subscriptions_get_def Subscriptions_upgrade_def
  Subscriptions_cancel_def APIKeys_list_def APIKeys_create_def APIKeys_revoke_def
  Webhooks_list_def Webhooks_create_def Webhooks_delete_def

lemma invoke_propagates:
  "executor_call cfg net c = (Inl e, tr) \<Longrightarrow> invoke cfg net c = (Inl e, tr)"
  by (cases c) (simp_all add: method_defs)

lemma invoke_plain:
  "executor_call cfg net c = (Inr envelope, tr) \<Longrightarrow> \<not> builds_Post c \<Longrightarrow>
   invoke cfg net c = (Inr (Data (data envelope)), tr) \<or> invoke cfg net c = (Inr Nothing, tr)"
  by (cases c) (simp_all add: method_defs)

lemma invoke_builds:
  "executor_call cfg net c = (Inr envelope, tr) \<Longrightarrow> builds_Post c \<Longrightarrow>
   invoke cfg net c = (Inl TypeError, tr) \<or> (\<exists>v. invoke cfg net c = (Inr v, tr))"
  using return_Post_cases [of envelope tr] return_Posts_cases [of envelope tr]
  by (cases c) (simp_all add: method_defs)

lemma set_if_str_unset [simp]: "set_if_str d k None = d" "set_if_str d k (Some []) = d"
  by (simp_all add: set_if_str_def)

lemma set_if_int_unset [simp]: "set_if_int d k None = d" "set_if_int d k (Some 0) = d"
  by (simp_all add: set_if_int_def)

lemma set_if_strs_unset [simp]: "set_if_strs d k None = d" "set_if_strs d k (Some []) = d"
  by (simp_all add: set_if_strs_def)

lemma set_if_urgency_unset [simp]: "set_if_urgency d k None = d"
  by (simp add: set_if_urgency_def)

lemma set_if_not_None_unset [simp]: "set_if_not_None d k None = d"
  by (simp add: set_if_not_None_def)





subsection \<open>Digests\<close>


















section \<open>The claims\<close>

text \<open>
  Claim C1, at the input where the code departs from it. With the default configuration
  (three retries) and a server that answers every attempt with status 503, \<open>_request\<close>
  makes one attempt and does not sleep: the \<open>AIAutoNewsException\<close> raised for the
  response that is not ok is no \<open>RequestException\<close>, so the \<open>except\<close> clause with
  the backoff never sees it, and it reaches the caller at once.
\<close>

theorem server_error_single_attempt:
  "fst (request (default_config ''key'') server_unavailable ''GET'' ''/posts'' None None None) =
     Inl (AIAutoNewsException (JStr ''Service Unavailable'') (JStr ''request_failed'')
            (JsonDetails JNull))
   \<and> attempts (snd (request (default_config ''key'') server_unavailable ''GET'' ''/posts''
         None None None)) = 1
   \<and> sleeps (snd (request (default_config ''key'') server_unavailable ''GET'' ''/posts''
         None None None)) = []"
proof -
  let ?cfg = "default_config ''key''"
  have r: "0 < retries ?cfg" by (simp add: default_config_def)
  have b: "attempt_body (server_unavailable (build_request ?cfg ''GET'' ''/posts'' None None None) 0)
      = Inl (AIAutoNewsException (JStr ''Service Unavailable'') (JStr ''request_failed'')
            (JsonDetails JNull))"
    by (simp add: server_unavailable_def handle_response_def response_data_def ok_def
        raise_for_error_def)
  show ?thesis
    using request_first_raises [where net = server_unavailable, OF r b] by simp
qed







text \<open>
  Claim C4, the input that refutes it. The server answers 200 with a body that is not
  JSON. The caller gets an error with the code \<open>request_failed\<close>, not
  \<open>parse_error\<close>, after three attempts.
\<close>

theorem malformed_json_counterexample:
  "fst (request (default_config ''key'') ok_malformed ''GET'' ''/posts'' None None None) =
       Inl (AIAutoNewsException (JStr ''Expecting value: line 1 column 1 (char 0)'')
              (JStr ''request_failed'')
              (ErrorDetails (RequestException ''Expecting value: line 1 column 1 (char 0)'' None)))
   \<and> attempts (snd (request (default_config ''key'') ok_malformed ''GET'' ''/posts''
        None None None)) = 3"
  by (simp add: request_def default_config_def ok_malformed_def upt_3 handle_response_def
      response_data_def)

text \<open>
  Claim C4, amended. When every attempt receives a response with a non-empty body that is
  not well-formed JSON, so that \<open>response.json()\<close> raises the JSONDecodeError of
  requests (a \<open>RequestException\<close> without a response), each attempt is handled like a
  transport failure: all \<open>N\<close> attempts are made, with sleeps of 1, 2, ...,
  \<open>2 ^ (N - 2)\<close> between them, and \<open>_request\<close> fails with an \<open>AIAutoNewsException\<close>
  whose code is \<open>request_failed\<close>, whose message is the text of the last decoding error
  and whose details are that error.
\<close>

theorem malformed_json_is_retried:
  assumes "retries cfg = int N" and "0 < N"
    and "\<forall>i<N. net (build_request cfg method path params body hdrs) i = Responds (rs i)
               \<and> content (rs i) \<noteq> []
               \<and> json_result (rs i) = Inl (RequestException (s i) None)"
  shows "fst (request cfg net method path params body hdrs) =
           Inl (AIAutoNewsException (JStr (s (N - 1))) (JStr ''request_failed'')
                  (ErrorDetails (RequestException (s (N - 1)) None)))
         \<and> attempts (snd (request cfg net method path params body hdrs)) = N
         \<and> sleeps (snd (request cfg net method path params body hdrs)) = map (\<lambda>i. 2 ^ i) [0..<N - 1]"
proof (rule request_all_caught_summary [where st = "\<lambda>i. None", OF assms(1,2)])
  fix i assume "i < N"
  with assms(3) show "attempt_body (net (build_request cfg method path params body hdrs) i)
          = Inl (RequestException (s i) None)
        \<and> \<not> has_client_error_response (RequestException (s i) None)"
    by (simp add: handle_response_def response_data_def)
qed

text \<open>
  The amended claim C4 at the default configuration and the server that answers 200 with
  a body that is not JSON.
\<close>

theorem malformed_json_is_retried_witness:
  "fst (request (default_config ''key'') ok_malformed ''GET'' ''/posts'' None None None) =
       Inl (AIAutoNewsException (JStr ''Expecting value: line 1 column 1 (char 0)'')
              (JStr ''request_failed'')
              (ErrorDetails (RequestException ''Expecting value: line 1 column 1 (char 0)'' None)))
   \<and> attempts (snd (request (default_config ''key'') ok_malformed ''GET'' ''/posts''
        None None None)) = 3
   \<and> sleeps (snd (request (default_config ''key'') ok_malformed ''GET'' ''/posts''
        None None None)) = [1, 2]"
proof -
  let ?r = "\<lparr>status_code = 200, reason = ''OK'', content = ''not json'',
               json_result = Inl (RequestException ''Expecting value: line 1 column 1 (char 0)'' None),
               headers = []\<rparr>"
  have a: "retries (default_config ''key'') = int 3" by (simp add: default_config_def)
  have b: "0 < (3::nat)" by simp
  have c: "\<forall>i<3. ok_malformed (build_request (default_config ''key'') ''GET'' ''/posts'' None None None) i
        = Responds ((\<lambda>i. ?r) i)
      \<and> content ((\<lambda>i. ?r) i) \<noteq> []
      \<and> json_result ((\<lambda>i. ?r) i) =
          Inl (RequestException ((\<lambda>i. ''Expecting value: line 1 column 1 (char 0)'') i) None)"
    by (simp add: ok_malformed_def)
  have u: "[0..<2] = [0, Suc 0]" by (simp add: upt_conv_Cons)
  show ?thesis
    using malformed_json_is_retried
      [where net = ok_malformed and rs = "\<lambda>i. ?r"
        and s = "\<lambda>i. ''Expecting value: line 1 column 1 (char 0)''", OF a b c] u
    by simp
qed




text \<open>
  Claim C6. When all \<open>N\<close> attempts (\<open>N\<close> the configured number of retries, at least
  one) end in the \<open>except\<close> clause without \<open>break\<close>, that is each raises a
  \<open>RequestException\<close> that carries no 4xx response, \<open>_request\<close> fails with an
  \<open>AIAutoNewsException\<close> whose code is \<open>request_failed\<close>, whose message is \<open>str\<close> of
  the last captured error and whose details are that error; it has made \<open>N\<close> attempts
  and slept 1, 2, ..., \<open>2 ^ (N - 2)\<close> between them.
\<close>

theorem exhausted_raises_request_failed:
  assumes "retries cfg = int N" and "0 < N"
    and "\<forall>i<N. attempt_body (net (build_request cfg method path params body hdrs) i)
                  = Inl (RequestException (s i) (st i))
               \<and> \<not> has_client_error_response (RequestException (s i) (st i))"
  shows "fst (request cfg net method path params body hdrs) =
           Inl (AIAutoNewsException (JStr (s (N - 1))) (JStr ''request_failed'')
                  (ErrorDetails (RequestException (s (N - 1)) (st (N - 1)))))
         \<and> attempts (snd (request cfg net method path params body hdrs)) = N
         \<and> sleeps (snd (request cfg net method path params body hdrs)) = map (\<lambda>i. 2 ^ i) [0..<N - 1]"
proof -
  have "request cfg net method path params body hdrs =
           (Inl (AIAutoNewsException (JStr (str_of_last_error (Some (RequestException (s (N - 1)) (st (N - 1))))))
                   (JStr ''request_failed'') (ErrorDetails (RequestException (s (N - 1)) (st (N - 1))))),
            failed_trace (int N) (build_request cfg method path params body hdrs) 0 N)"
    by (rule request_all_caught [where e = "\<lambda>i. RequestException (s i) (st i)"])
       (use assms in simp_all)
  then show ?thesis
    using sleeps_failed_trace [of 0 N "int N"] by (simp add: attempts_failed_trace)
qed

text \<open>
  Claim C6 at the default configuration and a server that cannot be reached: three
  attempts, sleeps of 1 and 2, and the error \<open>request_failed\<close> with the text of the
  connection error.
\<close>

theorem exhausted_raises_request_failed_witness:
  "fst (request (default_config ''key'') unreachable ''GET'' ''/posts'' None None None) =
     Inl (AIAutoNewsException (JStr ''Connection refused'') (JStr ''request_failed'')
            (ErrorDetails (RequestException ''Connection refused'' None)))
   \<and> attempts (snd (request (default_config ''key'') unreachable ''GET'' ''/posts'' None None None)) = 3
   \<and> sleeps (snd (request (default_config ''key'') unreachable ''GET'' ''/posts'' None None None)) = [1, 2]"
proof -
  have a: "retries (default_config ''key'') = int 3" by (simp add: default_config_def)
  have b: "0 < (3::nat)" by simp
  have c: "\<forall>i<3. attempt_body (unreachable
        (build_request (default_config ''key'') ''GET'' ''/posts'' None None None) i)
        = Inl (RequestException ((\<lambda>i. ''Connection refused'') i) ((\<lambda>i. None) i))
      \<and> \<not> has_client_error_response
            (RequestException ((\<lambda>i. ''Connection refused'') i) ((\<lambda>i. None) i))"
    by (simp add: unreachable_def)
  have u: "[0..<2] = [0, Suc 0]" by (simp add: upt_conv_Cons)
  show ?thesis
    using exhausted_raises_request_failed
      [where net = unreachable and s = "\<lambda>i. ''Connection refused''" and st = "\<lambda>i. None", OF a b c] u
    by simp
qed

text \<open>
  Claim C7, the input that refutes it. The server answers \<open>Posts.get("p1")\<close> with 200
  and the body \<open>{"data":{"id":"p1","title":"T"}}\<close>. The executor returns an envelope,
  and the method itself raises a TypeError, since \<open>Post(**response.data)\<close> lacks five
  required fields.
\<close>

theorem partial_post_counterexample:
  "executor_call (default_config ''key'') ok_partial_post (Call_Posts_get ''p1'') =
     (Inr \<lparr>success = True, data = JObj [(''id'', JStr ''p1''), (''title'', JStr ''T'')],
           error = None,
           metadata = Some
             [(''request_id'', JStr []),
              (''rate_limit'', JObj [(''remaining'', JNum 0), (''reset'', JStr [])])]\<rparr>,
      [Attempt (build_request (default_config ''key'') ''GET'' ''/posts/p1'' None None None)])
   \<and> invoke (default_config ''key'') ok_partial_post (Call_Posts_get ''p1'') =
     (Inl TypeError,
      [Attempt (build_request (default_config ''key'') ''GET'' ''/posts/p1'' None None None)])"
proof -
  have a: "0 < retries (default_config ''key'')" by (simp add: default_config_def)
  have b: "attempt_body (ok_partial_post
      (build_request (default_config ''key'') ''GET'' ''/posts/p1'' None None None) 0) =
       Inr \<lparr>success = True, data = JObj [(''id'', JStr ''p1''), (''title'', JStr ''T'')],
           error = None,
           metadata = Some
             [(''request_id'', JStr []),
              (''rate_limit'', JObj [(''remaining'', JNum 0), (''reset'', JStr [])])]\<rparr>"
    by (simp add: ok_partial_post_def handle_response_def response_data_def ok_def
        build_envelope_def remaining_of_def headers_get_def header_or_empty_def)
  have r: "request (default_config ''key'') ok_partial_post ''GET'' ''/posts/p1'' None None None =
     (Inr \<lparr>success = True, data = JObj [(''id'', JStr ''p1''), (''title'', JStr ''T'')],
           error = None,
           metadata = Some
             [(''request_id'', JStr []),
              (''rate_limit'', JObj [(''remaining'', JNum 0), (''reset'', JStr [])])]\<rparr>,
      [Attempt (build_request (default_config ''key'') ''GET'' ''/posts/p1'' None None None)])"
    using request_first_returns [where net = ok_partial_post, OF a b] .
  have p: "Post_of (JObj [(''id'', JStr ''p1''), (''title'', JStr ''T'')]) = Inl TypeError"
    by (simp add: Post_required_def Post_fields_def)
  show ?thesis using r p by (simp add: Posts_get_def)
qed

text \<open>
  Claim C7, amended. Whenever the executor fails, the public method that called it fails
  with the same exception, unchanged, and with the same trace: no method catches, replaces
  or retries. When the executor returns an envelope, the methods that do not build
  \<open>Post\<close> objects return its data or \<open>None\<close> and raise nothing; the methods that build
  \<open>Post\<close> objects (\<open>Posts.list\<close>, \<open>get\<close>, \<open>create\<close>, \<open>update\<close>, \<open>search\<close> and
  \<open>Generation.create\<close>) return a value or raise a TypeError.
\<close>

theorem resource_methods_propagate:
  "(executor_call cfg net c = (Inl e, tr) \<longrightarrow> invoke cfg net c = (Inl e, tr))
   \<and> (executor_call cfg net c = (Inr envelope, tr) \<and> \<not> builds_Post c \<longrightarrow>
        invoke cfg net c = (Inr (Data (data envelope)), tr) \<or> invoke cfg net c = (Inr Nothing, tr))
   \<and> (executor_call cfg net c = (Inr envelope, tr) \<and> builds_Post c \<longrightarrow>
        invoke cfg net c = (Inl TypeError, tr) \<or> (\<exists>v. invoke cfg net c = (Inr v, tr)))"
  using invoke_propagates invoke_plain invoke_builds by blast

text \<open>
  The amended claim C7 at three calls: \<open>Posts.get\<close> against the 404 server fails with the
  executor's error; \<open>Subscriptions.get\<close> against the empty 200 response returns its data;
  \<open>Posts.get\<close> against a complete post returns the \<open>Post\<close>.
\<close>

theorem resource_methods_propagate_witness:
  "executor_call (default_config ''key'') not_found_json (Call_Posts_get ''1'') =
     (Inl (AIAutoNewsException (JStr ''missing'') (JStr ''not_found'') (JsonDetails JNull)),
      [Attempt (build_request (default_config ''key'') ''GET'' ''/posts/1'' None None None)])
   \<and> invoke (default_config ''key'') not_found_json (Call_Posts_get ''1'') =
     (Inl (AIAutoNewsException (JStr ''missing'') (JStr ''not_found'') (JsonDetails JNull)),
      [Attempt (build_request (default_config ''key'') ''GET'' ''/posts/1'' None None None)])
   \<and> executor_call (default_config ''key'') ok_no_headers Call_Subscriptions_get =
     (Inr \<lparr>success = True, data = JObj [], error = None,
           metadata = Some
             [(''request_id'', JStr []),
              (''rate_limit'', JObj [(''remaining'', JNum 0), (''reset'', JStr [])])]\<rparr>,
      [Attempt (build_request (default_config ''key'') ''GET'' ''/subscriptions/current''
         None None None)])
   \<and> \<not> builds_Post Call_Subscriptions_get
   \<and> invoke (default_config ''key'') ok_no_headers Call_Subscriptions_get =
     (Inr (Data (JObj [])),
      [Attempt (build_request (default_config ''key'') ''GET'' ''/subscriptions/current''
         None None None)])
   \<and> builds_Post (Call_Posts_get ''p1'')
   \<and> invoke (default_config ''key'') ok_full_post (Call_Posts_get ''p1'') =
     (Inr (A_Post \<lparr>post_id = JStr ''p1'', post_title = JStr ''T'', post_content = JStr ''C'',
              post_category = JStr ''tech'', post_slug = JStr ''t'',
              post_published = JBool True, post_created_at = JStr ''2024-01-01'',
              post_metadata = JNull\<rparr>),
      [Attempt (build_request (default_config ''key'') ''GET'' ''/posts/p1'' None None None)])"
proof -
  let ?cfg = "default_config ''key''"
  let ?md = "Some [(''request_id'', JStr []),
              (''rate_limit'', JObj [(''remaining'', JNum 0), (''reset'', JStr [])])]"
  let ?post = "JObj [(''id'', JStr ''p1''), (''title'', JStr ''T''), (''content'', JStr ''C''),
                        (''category'', JStr ''tech''), (''slug'', JStr ''t''),
                        (''published'', JBool True), (''created_at'', JStr ''2024-01-01'')]"
  have a: "0 < retries ?cfg" by (simp add: default_config_def)
  have b1: "attempt_body (not_found_json (build_request ?cfg ''GET'' ''/posts/1'' None None None) 0)
      = Inl (AIAutoNewsException (JStr ''missing'') (JStr ''not_found'') (JsonDetails JNull))"
    by (simp add: not_found_json_def handle_response_def response_data_def ok_def
        raise_for_error_def)
  have e1: "executor_call ?cfg not_found_json (Call_Posts_get ''1'') =
     (Inl (AIAutoNewsException (JStr ''missing'') (JStr ''not_found'') (JsonDetails JNull)),
      [Attempt (build_request ?cfg ''GET'' ''/posts/1'' None None None)])"
    using request_first_raises [where net = not_found_json, OF a b1] by simp
  have b2: "attempt_body (ok_no_headers
      (build_request ?cfg ''GET'' ''/subscriptions/current'' None None None) 0) =
       Inr \<lparr>success = True, data = JObj [], error = None, metadata = ?md\<rparr>"
    by (simp add: ok_no_headers_def handle_response_def response_data_def ok_def
        build_envelope_def remaining_of_def headers_get_def header_or_empty_def)
  have e2: "executor_call ?cfg ok_no_headers Call_Subscriptions_get =
     (Inr \<lparr>success = True, data = JObj [], error = None, metadata = ?md\<rparr>,
      [Attempt (build_request ?cfg ''GET'' ''/subscriptions/current'' None None None)])"
    using request_first_returns [where net = ok_no_headers, OF a b2] by simp
  have b3: "attempt_body (ok_full_post (build_request ?cfg ''GET'' ''/posts/p1'' None None None) 0) =
       Inr \<lparr>success = True, data = ?post, error = None, metadata = ?md\<rparr>"
    by (simp add: ok_full_post_def handle_response_def response_data_def ok_def
        build_envelope_def remaining_of_def headers_get_def header_or_empty_def)
  have e3: "executor_call ?cfg ok_full_post (Call_Posts_get ''p1'') =
     (Inr \<lparr>success = True, data = ?post, error = None, metadata = ?md\<rparr>,
      [Attempt (build_request ?cfg ''GET'' ''/posts/p1'' None None None)])"
    using request_first_returns [where net = ok_full_post, OF a b3] by simp
  have p: "Post_of ?post =
      Inr \<lparr>post_id = JStr ''p1'', post_title = JStr ''T'', post_content = JStr ''C'',
              post_category = JStr ''tech'', post_slug = JStr ''t'',
              post_published = JBool True, post_created_at = JStr ''2024-01-01'',
              post_metadata = JNull\<rparr>"
    by (simp add: Post_required_def Post_fields_def field_def)
  have i3: "invoke ?cfg ok_full_post (Call_Posts_get ''p1'') =
     (Inr (A_Post \<lparr>post_id = JStr ''p1'', post_title = JStr ''T'', post_content = JStr ''C'',
              post_category = JStr ''tech'', post_slug = JStr ''t'',
              post_published = JBool True, post_created_at = JStr ''2024-01-01'',
              post_metadata = JNull\<rparr>),
      [Attempt (build_request ?cfg ''GET'' ''/posts/p1'' None None None)])"
    using e3 p by (simp add: Posts_get_def)
  have w1: "invoke ?cfg not_found_json (Call_Posts_get ''1'') =
     (Inl (AIAutoNewsException (JStr ''missing'') (JStr ''not_found'') (JsonDetails JNull)),
      [Attempt (build_request ?cfg ''GET'' ''/posts/1'' None None None)])"
    using resource_methods_propagate [of ?cfg not_found_json "Call_Posts_get ''1''"] e1 by simp
  have w2: "invoke ?cfg ok_no_headers Call_Subscriptions_get =
     (Inr (Data (JObj [])),
      [Attempt (build_request ?cfg ''GET'' ''/subscriptions/current'' None None None)])"
    using resource_methods_propagate [of ?cfg ok_no_headers Call_Subscriptions_get] e2
    by (simp add: Subscriptions_get_def)
  show ?thesis using e1 w1 e2 w2 i3 by simp
qed

text \<open>
  Claim C8. With every optional argument unset, each method that has optional arguments
  calls the executor with exactly the fields that are always sent: \<open>page\<close> and \<open>limit\<close>
  for \<open>Posts.list\<close>, \<open>q\<close> and \<open>limit\<close> for \<open>Posts.search\<close>, \<open>topic\<close> and \<open>type\<close> for
  \<open>Generation.create\<close>, nothing for \<open>Analytics.usage\<close>, \<open>name\<close> for \<open>APIKeys.create\<close>,
  \<open>url\<close> and \<open>events\<close> for \<open>Webhooks.create\<close>; no key stands for an omitted argument.
  \<open>Posts.list(category="tech")\<close> sends \<open>category=tech\<close> and no key \<open>published\<close>.
\<close>

theorem unset_optionals_are_omitted:
  "Posts_list cfg net page limit None None =
     return_Posts (request cfg net ''GET'' ''/posts''
       (Some [(''page'', JNum page), (''limit'', JNum limit)]) None None)
   \<and> Posts_search cfg net query limit None =
     return_Posts (request cfg net ''GET'' ''/search''
       (Some [(''q'', JStr query), (''limit'', JNum limit)]) None None)
   \<and> Generation_create cfg net topic content_type None None None None =
     return_Post (request cfg net ''POST'' ''/generate'' None
       (Some [(''topic'', JStr topic), (''type'', JStr (ContentType_value content_type))]) None)
   \<and> Analytics_usage cfg net None None None =
     return_data (request cfg net ''GET'' ''/analytics/usage'' (Some []) None None)
   \<and> APIKeys_create cfg net name None None =
     return_data (request cfg net ''POST'' ''/apikeys'' None (Some [(''name'', JStr name)]) None)
   \<and> Webhooks_create cfg net url events None =
     return_data (request cfg net ''POST'' ''/webhooks'' None
       (Some [(''url'', JStr url), (''events'', JArr (map JStr events))]) None)
   \<and> Posts_list cfg net page limit (Some ''tech'') None =
     return_Posts (request cfg net ''GET'' ''/posts''
       (Some [(''page'', JNum page), (''limit'', JNum limit), (''category'', JStr ''tech'')])
       None None)
   \<and> req_params (build_request cfg ''GET'' ''/posts''
        (Some (Posts_list_params page limit (Some ''tech'') None)) None None) =
       Some [(''page'', JNum page), (''limit'', JNum limit), (''category'', JStr ''tech'')]"
  by (simp add: method_defs Posts_list_params_def Posts_search_params_def
      Generation_create_body_def Analytics_usage_params_def APIKeys_create_body_def
      Webhooks_create_body_def set_if_str_def build_request_def)

text \<open>
  Claim C9. Every envelope that \<open>_request\<close> returns has \<open>success = True\<close>,
  \<open>error = None\<close> and a metadata that is not \<open>None\<close>.
\<close>

theorem returned_envelope_is_success:
  assumes "request cfg net method path params body hdrs = (Inr envelope, tr)"
  shows "success envelope \<and> error envelope = None \<and> metadata envelope \<noteq> None"
proof -
  obtain x tr' where l: "retry_loop (retries cfg) net (build_request cfg method path params body hdrs)
      [0..<nat (retries cfg)] None = (x, tr')"
    by (cases "retry_loop (retries cfg) net (build_request cfg method path params body hdrs)
      [0..<nat (retries cfg)] None")
  with assms have "x = Returned envelope"
    by (cases x) (simp_all add: request_def)
  with l have "retry_loop (retries cfg) net (build_request cfg method path params body hdrs)
      [0..<nat (retries cfg)] None = (Returned envelope, tr')" by simp
  then show ?thesis by (rule retry_loop_returned_shape)
qed

text \<open>
  Claim C9 at the default configuration and the server that answers 200 with an empty
  body.
\<close>

theorem returned_envelope_is_success_witness:
  "request (default_config ''key'') ok_no_headers ''GET'' ''/posts'' None None None =
           (Inr \<lparr>success = True, data = JObj [], error = None,
                 metadata = Some
                   [(''request_id'', JStr []),
                    (''rate_limit'', JObj [(''remaining'', JNum 0), (''reset'', JStr [])])]\<rparr>,
            [Attempt (build_request (default_config ''key'') ''GET'' ''/posts'' None None None)])
   \<and> success \<lparr>success = True, data = JObj [], error = None,
                 metadata = Some
                   [(''request_id'', JStr []),
                    (''rate_limit'', JObj [(''remaining'', JNum 0), (''reset'', JStr [])])]\<rparr>
   \<and> error \<lparr>success = True, data = JObj [], error = None,
                 metadata = Some
                   [(''request_id'', JStr []),
                    (''rate_limit'', JObj [(''remaining'', JNum 0), (''reset'', JStr [])])]\<rparr> = None
   \<and> metadata \<lparr>success = True, data = JObj [], error = None,
                 metadata = Some
                   [(''request_id'', JStr []),
                    (''rate_limit'', JObj [(''remaining'', JNum 0), (''reset'', JStr [])])]\<rparr> \<noteq> None"
proof -
  have a: "0 < retries (default_config ''key'')" by (simp add: default_config_def)
  have b: "attempt_body (ok_no_headers
      (build_request (default_config ''key'') ''GET'' ''/posts'' None None None) 0) =
       Inr \<lparr>success = True, data = JObj [], error = None,
                 metadata = Some
                   [(''request_id'', JStr []),
                    (''rate_limit'', JObj [(''remaining'', JNum 0), (''reset'', JStr [])])]\<rparr>"
    by (simp add: ok_no_headers_def handle_response_def response_data_def ok_def
        build_envelope_def remaining_of_def headers_get_def header_or_empty_def)
  have r: "request (default_config ''key'') ok_no_headers ''GET'' ''/posts'' None None None =
           (Inr \<lparr>success = True, data = JObj [], error = None,
                 metadata = Some
                   [(''request_id'', JStr []),
                    (''rate_limit'', JObj [(''remaining'', JNum 0), (''reset'', JStr [])])]\<rparr>,
            [Attempt (build_request (default_config ''key'') ''GET'' ''/posts'' None None None)])"
    using request_first_returns [where net = ok_no_headers, OF a b] .
  show ?thesis
    using returned_envelope_is_success [OF r] r by simp
qed


end
